theory Spec2Isabelle
  imports Main "HOL-Library.Word"
begin

section \<open>Values, errors and warnings\<close>

text \<open>
  The parameter values the library handles are Python \<open>int\<close>, \<open>bytes\<close> and \<open>str\<close>
  objects.  A \<open>str\<close> is kept as the sequence of the bytes of its encoded form, one
  \<open>char\<close> per byte.
\<close>

type_synonym byte = "8 word"

datatype pvalue = VInt int | VBytes "byte list" | VStr string

text \<open>
  Exceptions.  \<open>KeyError\<close>, \<open>TypeError\<close>, \<open>ValueError\<close>, \<open>NotImplementedError\<close>
  and \<open>AttributeError\<close> are the Python exceptions the source raises (a \<open>KeyError\<close>
  carries the key that was looked up); \<open>ShortRead\<close>, \<open>FormatMismatch\<close> and
  \<open>InvalidParameterValue\<close> are the error kinds of the byte stream codec.
\<close>

datatype error =
    KeyError pvalue
  | TypeError
  | ValueError
  | NotImplementedError
  | AttributeError
  | ShortRead
  | FormatMismatch
  | InvalidParameterValue

text \<open>
  Warnings: \<open>Message\<close> is \<open>warnings.warn\<close> with the given text; \<open>FieldMissing\<close> and
  \<open>FieldWrongType\<close> are the warnings of the codec's structural validation, with the
  name of the field.
\<close>

datatype warning = Message string | FieldMissing string | FieldWrongType string

type_synonym values_dict = "string \<rightharpoonup> pvalue"

section \<open>The byte stream codec\<close>

text \<open>
  Modelled from the spec: the module \<open>pascal_style_byte_stream\<close>
  (\<open>PascalStyleFormatInstruction\<close>, \<open>PascalStyleByteStream\<close>) is imported by \<open>key.py\<close> and
  \<open>key_params.py\<close> and is not among the sources.  The definitions of this section follow
  sections 3, 4.1 and 6 of the specification, for the three field types the schemas of
  the sources use.  A byte stream is the list of the bytes not yet consumed.
\<close>

datatype PascalStyleFormatInstruction = STRING | BYTES | MPINT

type_synonym format_instructions_dict = "(string \<times> PascalStyleFormatInstruction) list"

text \<open>The keys of a format instructions dict.\<close>

definition field_names :: "format_instructions_dict \<Rightarrow> string set" where
  "field_names fid = set (map fst fid)"

text \<open>Big-endian unsigned integers: \<open>be_bytes k n\<close> is \<open>n\<close> on \<open>k\<close> bytes.\<close>

definition be_nat :: "byte list \<Rightarrow> nat" where
  "be_nat bs = foldl (\<lambda>acc b. acc * 256 + unat b) 0 bs"

fun be_bytes :: "nat \<Rightarrow> nat \<Rightarrow> byte list" where
  "be_bytes 0 n = []"
| "be_bytes (Suc k) n = be_bytes k (n div 256) @ [of_nat n]"

text \<open>\<open>read_bytes(n)\<close>: consume exactly \<open>n\<close> bytes, \<open>ShortRead\<close> if fewer are available.\<close>

definition read_bytes :: "nat \<Rightarrow> byte list \<Rightarrow> error + byte list \<times> byte list" where
  "read_bytes n bs = (if length bs < n then Inl ShortRead else Inr (take n bs, drop n bs))"

definition read_u32 :: "byte list \<Rightarrow> error + nat \<times> byte list" where
  "read_u32 bs =
     (case read_bytes 4 bs of
        Inl e \<Rightarrow> Inl e
      | Inr (raw, rest) \<Rightarrow> Inr (be_nat raw, rest))"

text \<open>\<open>read_length_prefixed()\<close>: a \<open>u32\<close> length \<open>L\<close>, then \<open>L\<close> bytes.\<close>

definition read_length_prefixed :: "byte list \<Rightarrow> error + byte list \<times> byte list" where
  "read_length_prefixed bs =
     (case read_u32 bs of
        Inl e \<Rightarrow> Inl e
      | Inr (l, rest) \<Rightarrow> read_bytes l rest)"

text \<open>
  The length prefix is a \<open>uint32\<close>: a payload of \<open>2 ^ 32\<close> bytes or more has no
  encoding.
\<close>

definition write_length_prefixed :: "byte list \<Rightarrow> error + byte list" where
  "write_length_prefixed payload =
     (if length payload < 2 ^ 32 then Inr (be_bytes 4 (length payload) @ payload)
      else Inl InvalidParameterValue)"

text \<open>
  The \<open>mpint\<close> rule.  \<open>twos x\<close> is the minimal two's-complement big-endian form of
  \<open>x\<close> on at least one byte (a non-negative value whose high bit would be set gains a
  leading zero byte); zero is written as the empty payload.  On read a zero-length
  payload is \<open>0\<close> and any other payload is a signed big-endian integer, minimal or
  not.
\<close>

function twos :: "int \<Rightarrow> byte list" where
  "twos x = (if - 128 \<le> x \<and> x < 128 then [of_int x] else twos (x div 256) @ [of_int x])"
  by pat_completeness auto
termination
  by (relation "measure (\<lambda>x. nat \<bar>x\<bar>)") auto

declare twos.simps [simp del]

definition mpint_bytes :: "int \<Rightarrow> byte list" where
  "mpint_bytes x = (if x = 0 then [] else twos x)"

fun from_signed :: "byte list \<Rightarrow> int" where
  "from_signed [] = 0"
| "from_signed (b # bs) = sint b * 256 ^ length bs + int (be_nat bs)"

text \<open>A \<open>str\<close> and its bytes.\<close>

definition str_encode :: "string \<Rightarrow> byte list" where
  "str_encode s = map (\<lambda>c. of_nat (of_char c)) s"

definition str_decode :: "byte list \<Rightarrow> string" where
  "str_decode bs = map (\<lambda>b. char_of (unat b)) bs"

text \<open>
  Writing one field: the value has the runtime type of the tag (text for \<open>STRING\<close>, a
  byte sequence for \<open>BYTES\<close>, an integer for \<open>MPINT\<close>), else \<open>FormatMismatch\<close>.
\<close>

fun write_from_format_instruction ::
  "PascalStyleFormatInstruction \<Rightarrow> pvalue \<Rightarrow> error + byte list" where
  "write_from_format_instruction STRING (VStr s) = write_length_prefixed (str_encode s)"
| "write_from_format_instruction BYTES (VBytes b) = write_length_prefixed b"
| "write_from_format_instruction MPINT (VInt x) = write_length_prefixed (mpint_bytes x)"
| "write_from_format_instruction _ _ = Inl FormatMismatch"

definition read_from_format_instruction ::
  "PascalStyleFormatInstruction \<Rightarrow> byte list \<Rightarrow> error + pvalue \<times> byte list" where
  "read_from_format_instruction t bs =
     (case read_length_prefixed bs of
        Inl e \<Rightarrow> Inl e
      | Inr (payload, rest) \<Rightarrow>
          Inr (case t of
                 STRING \<Rightarrow> VStr (str_decode payload)
               | BYTES \<Rightarrow> VBytes payload
               | MPINT \<Rightarrow> VInt (from_signed payload),
               rest))"

text \<open>
  A structured record is the concatenation of its fields in declaration order; every
  declared field must be present at encode time.
\<close>

fun write_from_format_instructions_dict ::
  "format_instructions_dict \<Rightarrow> values_dict \<Rightarrow> error + byte list" where
  "write_from_format_instructions_dict [] values = Inr []"
| "write_from_format_instructions_dict ((k, t) # fid) values =
     (case values k of
        None \<Rightarrow> Inl FormatMismatch
      | Some v \<Rightarrow>
          (case write_from_format_instruction t v of
             Inl e \<Rightarrow> Inl e
           | Inr out \<Rightarrow>
               (case write_from_format_instructions_dict fid values of
                  Inl e \<Rightarrow> Inl e
                | Inr outs \<Rightarrow> Inr (out @ outs))))"

text \<open>
  \<open>read_struct\<close>: for each field in declaration order, read it and store it under its
  name; a failing field read fails the whole read with its error.
\<close>

fun read_fields ::
  "format_instructions_dict \<Rightarrow> values_dict \<Rightarrow> byte list \<Rightarrow> error + values_dict \<times> byte list" where
  "read_fields [] acc bs = Inr (acc, bs)"
| "read_fields ((k, t) # fid) acc bs =
     (case read_from_format_instruction t bs of
        Inl e \<Rightarrow> Inl e
      | Inr (v, rest) \<Rightarrow> read_fields fid (acc(k \<mapsto> v)) rest)"

definition read_from_format_instructions_dict ::
  "format_instructions_dict \<Rightarrow> byte list \<Rightarrow> error + values_dict \<times> byte list" where
  "read_from_format_instructions_dict fid bs = read_fields fid Map.empty bs"

text \<open>
  \<open>check_mapping_matches_schema\<close>: for each field of the schema, presence and a runtime
  type compatible with the tag; a mismatch is a warning, never an error.
\<close>

fun matches_instruction :: "PascalStyleFormatInstruction \<Rightarrow> pvalue \<Rightarrow> bool" where
  "matches_instruction STRING (VStr s) = True"
| "matches_instruction BYTES (VBytes b) = True"
| "matches_instruction MPINT (VInt x) = True"
| "matches_instruction _ _ = False"

fun check_dict_matches_format_instructions_dict ::
  "values_dict \<Rightarrow> format_instructions_dict \<Rightarrow> warning list" where
  "check_dict_matches_format_instructions_dict target [] = []"
| "check_dict_matches_format_instructions_dict target ((k, t) # fid) =
     (case target k of
        None \<Rightarrow> [FieldMissing k]
      | Some v \<Rightarrow> (if matches_instruction t v then [] else [FieldWrongType k]))
     @ check_dict_matches_format_instructions_dict target fid"

section \<open>The parameter classes of \<open>key_params.py\<close>\<close>

datatype params_class =
    RSAPublicKeyParams
  | RSAPrivateKeyParams
  | Ed25519PublicKeyParams
  | Ed25519PrivateKeyParams

text \<open>
  A parameters object is a \<open>collections.UserDict\<close>: its class and the dict \<open>data\<close>
  that holds the values.
\<close>

record key_params =
  params_class :: params_class
  data :: values_dict

text \<open>
  \<open>public_format_instructions_dict\<close>; the private classes inherit it from their public
  class.
\<close>

fun public_format_instructions_dict :: "params_class \<Rightarrow> format_instructions_dict" where
  "public_format_instructions_dict RSAPublicKeyParams = [(''e'', MPINT), (''n'', MPINT)]"
| "public_format_instructions_dict RSAPrivateKeyParams = [(''e'', MPINT), (''n'', MPINT)]"
| "public_format_instructions_dict Ed25519PublicKeyParams = [(''public'', BYTES)]"
| "public_format_instructions_dict Ed25519PrivateKeyParams = [(''public'', BYTES)]"

text \<open>
  \<open>private_format_instructions_dict\<close> is a method of the private classes only: on a
  public class the attribute lookup fails.
\<close>

fun private_format_instructions_dict :: "params_class \<Rightarrow> error + format_instructions_dict" where
  "private_format_instructions_dict RSAPrivateKeyParams =
     Inr [(''n'', MPINT), (''e'', MPINT), (''d'', MPINT), (''iqmp'', MPINT),
          (''p'', MPINT), (''q'', MPINT)]"
| "private_format_instructions_dict Ed25519PrivateKeyParams =
     Inr [(''public'', BYTES), (''private_public'', BYTES)]"
| "private_format_instructions_dict _ = Inl AttributeError"

text \<open>Python's \<open>len(v)\<close> and \<open>v[n:]\<close>: an \<open>int\<close> has neither.\<close>

fun py_len :: "pvalue \<Rightarrow> error + nat" where
  "py_len (VBytes b) = Inr (length b)"
| "py_len (VStr s) = Inr (length s)"
| "py_len (VInt x) = Inl TypeError"

fun py_slice_from :: "nat \<Rightarrow> pvalue \<Rightarrow> error + pvalue" where
  "py_slice_from n (VBytes b) = Inr (VBytes (drop n b))"
| "py_slice_from n (VStr s) = Inr (VStr (drop n s))"
| "py_slice_from n (VInt x) = Inl TypeError"

definition KEY_SIZE :: nat where
  "KEY_SIZE = 32"

text \<open>
  \<open>Ed25519PublicKeyParams.check_params_are_valid\<close>: the check of the base class, then
  the length check when \<open>public\<close> is present.
\<close>

definition Ed25519Public_check_params_are_valid :: "values_dict \<Rightarrow> error + warning list" where
  "Ed25519Public_check_params_are_valid d =
     (let ws = check_dict_matches_format_instructions_dict d
                 (public_format_instructions_dict Ed25519PublicKeyParams)
      in case d ''public'' of
           None \<Rightarrow> Inr ws
         | Some pub \<Rightarrow>
             (case py_len pub of
                Inl e \<Rightarrow> Inl e
              | Inr n \<Rightarrow>
                  Inr (if n \<noteq> KEY_SIZE then ws @ [Message ''Public key not of length 32'']
                       else ws)))"

text \<open>
  \<open>Ed25519PrivateKeyParams.check_params_are_valid\<close>: the check of the public class, the
  check of \<open>PrivateKeyParams\<close>, then the checks on \<open>private_public\<close>, which index
  \<open>self.data['public']\<close>.
\<close>

definition Ed25519Private_check_params_are_valid :: "values_dict \<Rightarrow> error + warning list" where
  "Ed25519Private_check_params_are_valid d =
     (case Ed25519Public_check_params_are_valid d of
        Inl e \<Rightarrow> Inl e
      | Inr ws1 \<Rightarrow>
          (let ws2 = ws1 @ check_dict_matches_format_instructions_dict d
                       [(''public'', BYTES), (''private_public'', BYTES)]
           in case d ''private_public'' of
                None \<Rightarrow> Inr ws2
              | Some pp \<Rightarrow>
                  (case py_slice_from KEY_SIZE pp of
                     Inl e \<Rightarrow> Inl e
                   | Inr tail \<Rightarrow>
                       (case d ''public'' of
                          None \<Rightarrow> Inl (KeyError (VStr ''public''))
                        | Some pub \<Rightarrow>
                            (let ws3 = (if tail \<noteq> pub
                                        then ws2 @ [Message ''Public key does not match'']
                                        else ws2)
                             in case py_len tail of
                                  Inl e \<Rightarrow> Inl e
                                | Inr n \<Rightarrow>
                                    Inr (if n \<noteq> KEY_SIZE
                                         then ws3 @ [Message ''Private key not of length 32'']
                                         else ws3))))))"

text \<open>
  \<open>check_params_are_valid\<close>, by the method resolution order of each class: the RSA
  public class has the check of \<open>PublicKeyParams\<close> (against the public format), the
  RSA private class the check of \<open>PrivateKeyParams\<close> (against the private format).
\<close>

fun check_params_are_valid :: "params_class \<Rightarrow> values_dict \<Rightarrow> error + warning list" where
  "check_params_are_valid RSAPublicKeyParams d =
     Inr (check_dict_matches_format_instructions_dict d
            (public_format_instructions_dict RSAPublicKeyParams))"
| "check_params_are_valid RSAPrivateKeyParams d =
     Inr (check_dict_matches_format_instructions_dict d
            [(''n'', MPINT), (''e'', MPINT), (''d'', MPINT), (''iqmp'', MPINT),
             (''p'', MPINT), (''q'', MPINT)])"
| "check_params_are_valid Ed25519PublicKeyParams d = Ed25519Public_check_params_are_valid d"
| "check_params_are_valid Ed25519PrivateKeyParams d = Ed25519Private_check_params_are_valid d"

text \<open>
  \<open>PublicKeyParams.__init__\<close>: store the mapping, then validate.  The result is the
  object and the warnings emitted.
\<close>

definition params_init :: "params_class \<Rightarrow> values_dict \<Rightarrow> error + key_params \<times> warning list" where
  "params_init cls params =
     (case check_params_are_valid cls params of
        Inl e \<Rightarrow> Inl e
      | Inr ws \<Rightarrow> Inr (\<lparr>params_class = cls, data = params\<rparr>, ws))"

text \<open>
  Equality of parameters objects.  Neither \<open>PublicKeyParams\<close> nor a subclass defines
  \<open>__eq__\<close>: it is the one \<open>collections.UserDict\<close> inherits from \<open>Mapping\<close>, which
  compares the items of the two mappings.
\<close>

definition params_eq :: "key_params \<Rightarrow> key_params \<Rightarrow> bool" where
  "params_eq a b = (data a = data b)"

section \<open>The factory of \<open>key_params.py\<close>\<close>

text \<open>
  \<open>_KEY_TYPE_MAPPING\<close>: the table from key type names to the pair
  \<open>(publicKeyParamsClass, privateKeyParamsClass)\<close>.
\<close>

definition KEY_TYPE_MAPPING :: "(string \<times> params_class \<times> params_class) list" where
  "KEY_TYPE_MAPPING =
     [(''ssh-rsa'', RSAPublicKeyParams, RSAPrivateKeyParams),
      (''ssh-ed25519'', Ed25519PublicKeyParams, Ed25519PrivateKeyParams)]"

text \<open>
  \<open>_KEY_TYPE_MAPPING[key_type]\<close>: a key that is not in the dict raises
  \<open>KeyError(key_type)\<close>; a key that is not a \<open>str\<close> is never in the dict.
\<close>

definition mapping_getitem :: "pvalue \<Rightarrow> error + params_class \<times> params_class" where
  "mapping_getitem key_type =
     (case key_type of
        VStr s \<Rightarrow>
          (case map_of KEY_TYPE_MAPPING s of
             None \<Rightarrow> Inl (KeyError key_type)
           | Some classes \<Rightarrow> Inr classes)
      | _ \<Rightarrow> Inl (KeyError key_type))"

definition create_public_key_params :: "pvalue \<Rightarrow> error + params_class" where
  "create_public_key_params key_type =
     (case mapping_getitem key_type of
        Inl e \<Rightarrow> Inl e
      | Inr classes \<Rightarrow> Inr (fst classes))"

definition create_private_key_params :: "pvalue \<Rightarrow> error + params_class" where
  "create_private_key_params key_type =
     (case mapping_getitem key_type of
        Inl e \<Rightarrow> Inl e
      | Inr classes \<Rightarrow> Inr (snd classes))"

section \<open>The key envelope of \<open>key.py\<close>\<close>

datatype key_class = PublicKey | PrivateKey

text \<open>
  A key object: its class, the attributes \<open>header\<close>, \<open>params\<close> and \<open>footer\<close> set by
  \<open>__init__\<close>, and the attributes \<open>bytes\<close> and \<open>remainder\<close> that \<open>from_bytes\<close> sets
  (\<open>None\<close> while the attribute does not exist).
\<close>

record key =
  key_class :: key_class
  header :: values_dict
  params :: key_params
  footer :: values_dict
  bytes :: "byte list option"
  remainder :: "byte list option"

definition header_format_instructions_dict :: "key_class \<Rightarrow> format_instructions_dict" where
  "header_format_instructions_dict cls = [(''key_type'', STRING)]"

fun footer_format_instructions_dict :: "key_class \<Rightarrow> format_instructions_dict" where
  "footer_format_instructions_dict PublicKey = []"
| "footer_format_instructions_dict PrivateKey = [(''comment'', STRING)]"

fun create_key_params_dict ::
  "key_class \<Rightarrow> pvalue \<Rightarrow> byte list \<Rightarrow> error + values_dict \<times> byte list" where
  "create_key_params_dict PublicKey key_type bs =
     (case create_public_key_params key_type of
        Inl e \<Rightarrow> Inl e
      | Inr c \<Rightarrow> read_from_format_instructions_dict (public_format_instructions_dict c) bs)"
| "create_key_params_dict PrivateKey key_type bs =
     (case create_private_key_params key_type of
        Inl e \<Rightarrow> Inl e
      | Inr c \<Rightarrow>
          (case private_format_instructions_dict c of
             Inl e \<Rightarrow> Inl e
           | Inr fid \<Rightarrow> read_from_format_instructions_dict fid bs))"

fun create_key_params ::
  "key_class \<Rightarrow> pvalue \<Rightarrow> values_dict \<Rightarrow> error + key_params \<times> warning list" where
  "create_key_params PublicKey key_type key_params_dict =
     (case create_public_key_params key_type of
        Inl e \<Rightarrow> Inl e
      | Inr c \<Rightarrow> params_init c key_params_dict)"
| "create_key_params PrivateKey key_type key_params_dict =
     (case create_private_key_params key_type of
        Inl e \<Rightarrow> Inl e
      | Inr c \<Rightarrow> params_init c key_params_dict)"

text \<open>
  \<open>PublicKey.__init__\<close>, inherited by \<open>PrivateKey\<close>: the static methods are those of the
  class of the object.  \<open>header['key_type']\<close> raises \<open>KeyError\<close> on a header without
  that key.
\<close>

definition key_init ::
  "key_class \<Rightarrow> values_dict \<Rightarrow> values_dict \<Rightarrow> values_dict \<Rightarrow> error + key \<times> warning list" where
  "key_init cls hdr prm ftr =
     (let ws1 = check_dict_matches_format_instructions_dict hdr
                  (header_format_instructions_dict cls)
      in case hdr ''key_type'' of
           None \<Rightarrow> Inl (KeyError (VStr ''key_type''))
         | Some key_type \<Rightarrow>
             (case create_key_params cls key_type prm of
                Inl e \<Rightarrow> Inl e
              | Inr (p, ws2) \<Rightarrow>
                  Inr (\<lparr>key_class = cls, header = hdr, params = p, footer = ftr,
                         bytes = None, remainder = None\<rparr>,
                       ws1 @ ws2 @ check_dict_matches_format_instructions_dict ftr
                                     (footer_format_instructions_dict cls))))"

text \<open>
  \<open>from_byte_stream\<close>: header, parameters and footer are read in turn; the result is
  the key, the warnings and the bytes left in the stream.
\<close>

definition from_byte_stream ::
  "key_class \<Rightarrow> byte list \<Rightarrow> error + key \<times> warning list \<times> byte list" where
  "from_byte_stream cls bs =
     (case read_from_format_instructions_dict (header_format_instructions_dict cls) bs of
        Inl e \<Rightarrow> Inl e
      | Inr (hdr, bs1) \<Rightarrow>
          (case hdr ''key_type'' of
             None \<Rightarrow> Inl (KeyError (VStr ''key_type''))
           | Some key_type \<Rightarrow>
               (case create_key_params_dict cls key_type bs1 of
                  Inl e \<Rightarrow> Inl e
                | Inr (prm, bs2) \<Rightarrow>
                    (case read_from_format_instructions_dict
                            (footer_format_instructions_dict cls) bs2 of
                       Inl e \<Rightarrow> Inl e
                     | Inr (ftr, bs3) \<Rightarrow>
                         (case key_init cls hdr prm ftr of
                            Inl e \<Rightarrow> Inl e
                          | Inr (k, ws) \<Rightarrow> Inr (k, ws, bs3))))))"

text \<open>
  \<open>from_bytes\<close>: \<open>byte_stream.read()\<close> returns all the bytes left; when there are some,
  the warning is emitted and they become the attribute \<open>remainder\<close>.
\<close>

definition from_bytes :: "key_class \<Rightarrow> byte list \<Rightarrow> error + key \<times> warning list" where
  "from_bytes cls byte_string =
     (case from_byte_stream cls byte_string of
        Inl e \<Rightarrow> Inl e
      | Inr (k, ws, rest) \<Rightarrow>
          (if length rest > 0
           then Inr (k\<lparr>bytes := Some byte_string, remainder := Some rest\<rparr>,
                     ws @ [Message ''Excess bytes in key''])
           else Inr (k\<lparr>bytes := Some byte_string\<rparr>, ws)))"

text \<open>
  \<open>pack_public\<close> writes with the header and footer formats of \<open>PublicKey\<close>, whatever the
  class of the object, and with the public format of the class of \<open>self.params\<close>.
\<close>

definition pack_public :: "key \<Rightarrow> error + byte list" where
  "pack_public k =
     (case write_from_format_instructions_dict
             (header_format_instructions_dict PublicKey) (header k) of
        Inl e \<Rightarrow> Inl e
      | Inr h \<Rightarrow>
          (case write_from_format_instructions_dict
                  (public_format_instructions_dict (params_class (params k)))
                  (data (params k)) of
             Inl e \<Rightarrow> Inl e
           | Inr p \<Rightarrow>
               (case write_from_format_instructions_dict
                       (footer_format_instructions_dict PublicKey) (footer k) of
                  Inl e \<Rightarrow> Inl e
                | Inr f \<Rightarrow> Inr (h @ p @ f))))"

text \<open>\<open>pack_private\<close> is a method of \<open>PrivateKey\<close> only.\<close>

definition pack_private :: "key \<Rightarrow> error + byte list" where
  "pack_private k =
     (if key_class k \<noteq> PrivateKey then Inl AttributeError
      else
        case write_from_format_instructions_dict
               (header_format_instructions_dict PrivateKey) (header k) of
          Inl e \<Rightarrow> Inl e
        | Inr h \<Rightarrow>
            (case private_format_instructions_dict (params_class (params k)) of
               Inl e \<Rightarrow> Inl e
             | Inr fid \<Rightarrow>
                 (case write_from_format_instructions_dict fid (data (params k)) of
                    Inl e \<Rightarrow> Inl e
                  | Inr p \<Rightarrow>
                      (case write_from_format_instructions_dict
                              (footer_format_instructions_dict PrivateKey) (footer k) of
                         Inl e \<Rightarrow> Inl e
                       | Inr f \<Rightarrow> Inr (h @ p @ f)))))"

text \<open>\<open>PublicKey.__eq__\<close>, inherited by \<open>PrivateKey\<close>.\<close>

definition key_eq :: "key \<Rightarrow> key \<Rightarrow> bool" where
  "key_eq self other =
     (key_class self = key_class other \<and>
      header self = header other \<and>
      params_eq (params self) (params other) \<and>
      footer self = footer other)"

section \<open>Conversion to key objects\<close>

text \<open>
  The type tokens: the two classes of the \<open>cryptography\<close> library that the RSA
  parameter classes name, and \<open>object\<close>.  Neither library class is a subclass of the
  other; each is a subclass of itself and of \<open>object\<close>.  The argument of \<open>convert_to\<close>
  is such a class or an object that is not a class.
\<close>

datatype py_type = RSAPublicKey | RSAPrivateKey | PyObject

datatype destination = Class py_type | NotAClass

definition issubclass :: "py_type \<Rightarrow> py_type \<Rightarrow> bool" where
  "issubclass a b = (a = b \<or> b = PyObject)"

text \<open>
  The key objects are built by the \<open>cryptography\<close> library, which is outside the
  repository: the result of a conversion that finds every field it reads is the
  library call it makes, as the text of the call and the values of the fields in the
  order they are read.  What the library does with the values is not part of the
  model.
\<close>

datatype key_object = ExternalCall string "pvalue list"

text \<open>\<open>self[k]\<close> for each \<open>k\<close> in turn: the first missing key raises \<open>KeyError\<close>.\<close>

fun getitems :: "values_dict \<Rightarrow> string list \<Rightarrow> error + pvalue list" where
  "getitems d [] = Inr []"
| "getitems d (k # ks) =
     (case d k of
        None \<Rightarrow> Inl (KeyError (VStr k))
      | Some v \<Rightarrow> (case getitems d ks of Inl e \<Rightarrow> Inl e | Inr vs \<Rightarrow> Inr (v # vs)))"

subsection \<open>\<open>key_params.py\<close>\<close>

text \<open>
  In \<open>key_params.py\<close> each class overrides \<open>convert_to\<close>, compares the destination class
  with \<open>==\<close> and calls \<open>super().convert_to\<close> otherwise: the base class for
  \<open>RSAPublicKeyParams\<close>, and \<open>RSAPublicKeyParams\<close> (the next class of its order that
  defines the method) for \<open>RSAPrivateKeyParams\<close>.
\<close>

definition PublicKeyParams_convert_to :: "destination \<Rightarrow> error + key_object" where
  "PublicKeyParams_convert_to destination_class =
     (if destination_class = NotAClass then Inl ValueError else Inl NotImplementedError)"

definition rsa_public_numbers :: "values_dict \<Rightarrow> error + key_object" where
  "rsa_public_numbers self =
     (case getitems self [''e'', ''n''] of
        Inl e \<Rightarrow> Inl e
      | Inr args \<Rightarrow> Inr (ExternalCall ''rsa.RSAPublicNumbers(e, n).public_key(backend)'' args))"

definition rsa_private_numbers :: "values_dict \<Rightarrow> error + key_object" where
  "rsa_private_numbers self =
     (case getitems self [''p'', ''q'', ''d'', ''d'', ''p'', ''d'', ''q'', ''iqmp'', ''e'', ''n''] of
        Inl e \<Rightarrow> Inl e
      | Inr args \<Rightarrow>
          Inr (ExternalCall
                 ''rsa.RSAPrivateNumbers(p, q, d, rsa_crt_dmp1(d, p), rsa_crt_dmp1(d, q), iqmp, rsa.RSAPublicNumbers(e, n)).private_key(backend)''
                 args))"

definition RSAPublicKeyParams_convert_to :: "values_dict \<Rightarrow> destination \<Rightarrow> error + key_object" where
  "RSAPublicKeyParams_convert_to self destination_class =
     (if destination_class = Class RSAPublicKey then rsa_public_numbers self
      else PublicKeyParams_convert_to destination_class)"

definition RSAPrivateKeyParams_convert_to :: "values_dict \<Rightarrow> destination \<Rightarrow> error + key_object" where
  "RSAPrivateKeyParams_convert_to self destination_class =
     (if destination_class = Class RSAPrivateKey then rsa_private_numbers self
      else RSAPublicKeyParams_convert_to self destination_class)"

subsection \<open>\<open>key_params/common.py\<close>\<close>

text \<open>
  The two loops of \<open>PublicKeyParams.convert_to\<close> of \<open>common.py\<close>, which run once the
  destination is known to be a class.  The inner loop returns at the first candidate
  class that is a subclass of the destination class, with the \<open>mapping_to_object\<close>
  stored under it; the outer loop runs over the method resolution order and breaks at
  the first class that is not a subclass of \<open>PublicKeyParams\<close>; after it the method
  raises \<open>NotImplementedError\<close>.  Both loops are written over any table of classes and
  any subclass test.  The subclasses of this \<open>PublicKeyParams\<close> among the sources are
  those of \<open>dss.py\<close>, which do not override the abstract classmethod
  \<open>get_format_instructions_dict\<close>.
\<close>

fun candidate_loop :: "('t \<Rightarrow> 't \<Rightarrow> bool) \<Rightarrow> 't \<Rightarrow> ('t \<times> 'f) list \<Rightarrow> 'f option" where
  "candidate_loop issub destination_class [] = None"
| "candidate_loop issub destination_class ((candidate_class, f) # rest) =
     (if issub candidate_class destination_class then Some f
      else candidate_loop issub destination_class rest)"

fun supercls_loop ::
  "('c \<Rightarrow> bool) \<Rightarrow> ('c \<Rightarrow> ('t \<times> (values_dict \<Rightarrow> error + 'o)) list) \<Rightarrow> ('t \<Rightarrow> 't \<Rightarrow> bool) \<Rightarrow>
     values_dict \<Rightarrow> 't \<Rightarrow> 'c list \<Rightarrow> error + 'o" where
  "supercls_loop is_params cfs issub self destination_class [] = Inl NotImplementedError"
| "supercls_loop is_params cfs issub self destination_class (supercls # rest) =
     (if \<not> is_params supercls then Inl NotImplementedError
      else
        case candidate_loop issub destination_class (cfs supercls) of
          Some mapping_to_object \<Rightarrow> mapping_to_object self
        | None \<Rightarrow> supercls_loop is_params cfs issub self destination_class rest)"

text \<open>
  The specification's words, for comparison: walk the inheritance chain from the most
  specific class to the base public-params class (the classes of the order before the
  first one that is not a parameters class), take the adapters level by level, and
  invoke the first one whose registered type is a subtype of the token; with none,
  fail.
\<close>

definition adapters_on_chain :: "('c \<Rightarrow> bool) \<Rightarrow> ('c \<Rightarrow> ('t \<times> 'f) list) \<Rightarrow> 'c list \<Rightarrow> ('t \<times> 'f) list" where
  "adapters_on_chain is_params cfs chain = concat (map cfs (takeWhile is_params chain))"

definition convert_to_spec ::
  "('t \<Rightarrow> 't \<Rightarrow> bool) \<Rightarrow> ('t \<times> (values_dict \<Rightarrow> error + 'o)) list \<Rightarrow> values_dict \<Rightarrow> 't \<Rightarrow> error + 'o" where
  "convert_to_spec issub adapters self t =
     (case find (\<lambda>(registered, f). issub registered t) adapters of
        None \<Rightarrow> Inl NotImplementedError
      | Some (registered, f) \<Rightarrow> f self)"

section \<open>Notions used to state the results\<close>

text \<open>
  The format the parameters of a key are written with by the \<open>pack\<close> method of its
  class, the encoding of a key (\<open>pack_public\<close> for a \<open>PublicKey\<close>, \<open>pack_private\<close> for a
  \<open>PrivateKey\<close>), the part of a key that its encoding holds (header, parameters and
  footer restricted to the fields of their formats), and the keys that hold nothing
  else.
\<close>

definition params_format :: "key \<Rightarrow> format_instructions_dict" where
  "params_format k =
     (case key_class k of
        PublicKey \<Rightarrow> public_format_instructions_dict (params_class (params k))
      | PrivateKey \<Rightarrow>
          (case private_format_instructions_dict (params_class (params k)) of
             Inl e \<Rightarrow> []
           | Inr fid \<Rightarrow> fid))"

definition written_part :: "key \<Rightarrow> key" where
  "written_part k =
     k\<lparr>header := header k |` field_names (header_format_instructions_dict (key_class k)),
       params := (params k)\<lparr>data := data (params k) |` field_names (params_format k)\<rparr>,
       footer := footer k |` field_names (footer_format_instructions_dict (key_class k))\<rparr>"

definition encode :: "key \<Rightarrow> error + byte list" where
  "encode k = (case key_class k of PublicKey \<Rightarrow> pack_public k | PrivateKey \<Rightarrow> pack_private k)"

definition no_extra_fields :: "key \<Rightarrow> bool" where
  "no_extra_fields k \<longleftrightarrow>
     dom (header k) \<subseteq> field_names (header_format_instructions_dict (key_class k)) \<and>
     dom (data (params k)) \<subseteq> field_names (params_format k) \<and>
     dom (footer k) \<subseteq> field_names (footer_format_instructions_dict (key_class k))"

section \<open>Example data\<close>

text \<open>
  A small RSA key (\<open>n = 61 * 53\<close>), a header, a footer, and the key object that
  \<open>PublicKey(header, params, footer)\<close> or \<open>PrivateKey(header, params, footer)\<close> builds
  from them.
\<close>

definition rsa_private_example :: values_dict where
  "rsa_private_example =
     [''n'' \<mapsto> VInt 3233, ''e'' \<mapsto> VInt 17, ''d'' \<mapsto> VInt 413,
      ''iqmp'' \<mapsto> VInt 38, ''p'' \<mapsto> VInt 61, ''q'' \<mapsto> VInt 53]"

definition rsa_header_example :: values_dict where
  "rsa_header_example = [''key_type'' \<mapsto> VStr ''ssh-rsa'']"

definition comment_example :: values_dict where
  "comment_example = [''comment'' \<mapsto> VStr ''test@host'']"

definition example_key :: "key_class \<Rightarrow> key" where
  "example_key cls =
     \<lparr>key_class = cls, header = rsa_header_example,
      params = \<lparr>params_class = (case cls of PublicKey \<Rightarrow> RSAPublicKeyParams
                                     | PrivateKey \<Rightarrow> RSAPrivateKeyParams),
                data = rsa_private_example\<rparr>,
      footer = comment_example, bytes = None, remainder = None\<rparr>"

text \<open>
  The public RSA key of the specification's scenario (\<open>e = 65537\<close>, \<open>n = 0x010001\<close>) with
  its encoding, and the same key built with a field \<open>bits\<close> that the format of
  \<open>RSAPublicKeyParams\<close> does not have.
\<close>

definition rsa_public_example :: values_dict where
  "rsa_public_example = [''e'' \<mapsto> VInt 65537, ''n'' \<mapsto> VInt 65537]"

definition rsa_public_key_example :: key where
  "rsa_public_key_example =
     \<lparr>key_class = PublicKey, header = rsa_header_example,
      params = \<lparr>params_class = RSAPublicKeyParams, data = rsa_public_example\<rparr>,
      footer = Map.empty, bytes = None, remainder = None\<rparr>"

definition rsa_public_bytes_example :: "byte list" where
  "rsa_public_bytes_example =
     [0, 0, 0, 7, 115, 115, 104, 45, 114, 115, 97, 0, 0, 0, 3, 1, 0, 1, 0, 0, 0, 3, 1, 0, 1]"

definition rsa_extra_example :: values_dict where
  "rsa_extra_example = [''e'' \<mapsto> VInt 65537, ''n'' \<mapsto> VInt 65537, ''bits'' \<mapsto> VInt 17]"

definition rsa_extra_key_example :: key where
  "rsa_extra_key_example =
     \<lparr>key_class = PublicKey, header = rsa_header_example,
      params = \<lparr>params_class = RSAPublicKeyParams, data = rsa_extra_example\<rparr>,
      footer = Map.empty, bytes = None, remainder = None\<rparr>"

text \<open>The encoding of \<open>example_key PrivateKey\<close>.\<close>

definition rsa_private_bytes_example :: "byte list" where
  "rsa_private_bytes_example =
     [0, 0, 0, 7, 115, 115, 104, 45, 114, 115, 97,
      0, 0, 0, 2, 12, 161, 0, 0, 0, 1, 17, 0, 0, 0, 2, 1, 157,
      0, 0, 0, 1, 38, 0, 0, 0, 1, 61, 0, 0, 0, 1, 53,
      0, 0, 0, 9, 116, 101, 115, 116, 64, 104, 111, 115, 116]"

section \<open>The codec: reading back what was written\<close>

lemma field_names_simps [simp]: "field_names [] = {}" "field_names ((k, t) # fid) = insert k (field_names fid)"
  by (simp_all add: field_names_def)

lemma be_nat_snoc: "be_nat (xs @ [b]) = be_nat xs * 256 + unat b"
  by (simp add: be_nat_def)

lemma length_be_bytes: "length (be_bytes k n) = k"
  by (induction k arbitrary: n) simp_all

lemma be_nat_be_bytes: "n < 256 ^ k \<Longrightarrow> be_nat (be_bytes k n) = n"
proof (induction k arbitrary: n)
  case 0
  then show ?case by (simp add: be_nat_def)
next
  case (Suc k)
  from Suc.prems have "n div 256 < 256 ^ k"
    by (simp add: less_mult_imp_div_less mult.commute)
  then have "be_nat (be_bytes k (n div 256)) = n div 256"
    by (rule Suc.IH)
  then show ?case
    by (simp only: be_bytes.simps be_nat_snoc) (simp add: unat_of_nat)
qed

lemma twos_nonempty: "twos x \<noteq> []"
  by (subst twos.simps) simp

lemma from_signed_snoc:
  "xs \<noteq> [] \<Longrightarrow> from_signed (xs @ [b]) = from_signed xs * 256 + uint b"
  by (cases xs) (simp_all add: algebra_simps be_nat_snoc)

lemma sint_small: "- 128 \<le> x \<Longrightarrow> x < 128 \<Longrightarrow> sint (of_int x :: byte) = x"
  by (simp add: sint_sbintrunc' signed_take_bit_int_eq_self)

lemma from_signed_twos: "from_signed (twos x) = x"
proof (induction x rule: twos.induct)
  case (1 x)
  show ?case
  proof (cases "- 128 \<le> x \<and> x < 128")
    case True
    then have "twos x = [of_int x]"
      by (subst twos.simps) simp
    with True show ?thesis by (simp add: sint_small be_nat_def)
  next
    case False
    then have "from_signed (twos (x div 256)) = x div 256"
      by (rule 1)
    moreover from False have "twos x = twos (x div 256) @ [of_int x]"
      by (subst twos.simps) auto
    ultimately show ?thesis
      by (simp add: from_signed_snoc twos_nonempty uint_word_of_int take_bit_eq_mod)
  qed
qed

lemma from_signed_mpint_bytes: "from_signed (mpint_bytes x) = x"
  by (simp add: mpint_bytes_def from_signed_twos)

lemma str_decode_encode: "str_decode (str_encode s) = s"
  by (simp add: str_decode_def str_encode_def unat_of_nat map_idI)

lemma read_bytes_append: "read_bytes (length p) (p @ rest) = Inr (p, rest)"
  by (simp add: read_bytes_def)

lemma read_u32_be_bytes: "n < 2 ^ 32 \<Longrightarrow> read_u32 (be_bytes 4 n @ rest) = Inr (n, rest)"
proof -
  assume "n < 2 ^ 32"
  then have "n < 256 ^ 4" by simp
  then have "be_nat (be_bytes 4 n) = n" by (rule be_nat_be_bytes)
  moreover have "read_bytes 4 (be_bytes 4 n @ rest) = Inr (be_bytes 4 n, rest)"
    using read_bytes_append [of "be_bytes 4 n" rest] by (simp only: length_be_bytes)
  ultimately show ?thesis by (simp add: read_u32_def)
qed

lemma read_write_length_prefixed:
  "write_length_prefixed p = Inr out \<Longrightarrow> read_length_prefixed (out @ rest) = Inr (p, rest)"
  by (auto simp: write_length_prefixed_def read_length_prefixed_def read_u32_be_bytes
      read_bytes_append split: if_splits)

lemma read_write_instruction:
  "write_from_format_instruction t v = Inr out \<Longrightarrow>
     read_from_format_instruction t (out @ rest) = Inr (v, rest)"
  by (cases "(t, v)" rule: write_from_format_instruction.cases)
    (simp_all add: read_from_format_instruction_def read_write_length_prefixed
      str_decode_encode from_signed_mpint_bytes)

lemma read_fields_write:
  "write_from_format_instructions_dict fid m = Inr out \<Longrightarrow>
     read_fields fid acc (out @ rest) = Inr (acc ++ (m |` field_names fid), rest)"
proof (induction fid arbitrary: acc out)
  case Nil
  then show ?case by simp
next
  case (Cons a fid)
  obtain k t where a: "a = (k, t)" by (cases a)
  from Cons.prems a obtain v o1 o2 where
    v: "m k = Some v" and o1: "write_from_format_instruction t v = Inr o1"
    and o2: "write_from_format_instructions_dict fid m = Inr o2" and out: "out = o1 @ o2"
    by (auto split: option.splits sum.splits)
  have "read_from_format_instruction t (o1 @ (o2 @ rest)) = Inr (v, o2 @ rest)"
    using o1 by (rule read_write_instruction)
  moreover have "read_fields fid (acc(k \<mapsto> v)) (o2 @ rest)
      = Inr (acc(k \<mapsto> v) ++ (m |` field_names fid), rest)"
    using o2 by (rule Cons.IH)
  moreover have "acc(k \<mapsto> v) ++ (m |` field_names fid) = acc ++ (m |` field_names (a # fid))"
    using v a by (auto simp: map_add_def restrict_map_def fun_eq_iff split: option.splits)
  ultimately show ?case
    using a out by simp
qed

lemma read_dict_write:
  "write_from_format_instructions_dict fid m = Inr out \<Longrightarrow>
     read_from_format_instructions_dict fid (out @ rest) = Inr (m |` field_names fid, rest)"
  by (simp add: read_from_format_instructions_dict_def read_fields_write)

section \<open>The factory: results\<close>

lemma mapping_getitem_simps:
  "mapping_getitem (VStr ''ssh-rsa'') = Inr (RSAPublicKeyParams, RSAPrivateKeyParams)"
  "mapping_getitem (VStr ''ssh-ed25519'') = Inr (Ed25519PublicKeyParams, Ed25519PrivateKeyParams)"
  by (simp_all add: mapping_getitem_def KEY_TYPE_MAPPING_def)

lemma mapping_getitem_unknown:
  "s \<noteq> ''ssh-rsa'' \<Longrightarrow> s \<noteq> ''ssh-ed25519'' \<Longrightarrow>
     mapping_getitem (VStr s) = Inl (KeyError (VStr s))"
  by (simp add: mapping_getitem_def KEY_TYPE_MAPPING_def)

text \<open>
  C2.  The private lookup of a certificate identifier: the table has no entry for
  \<open>ssh-rsa-cert-v01@openssh.com\<close>, so the lookup raises the \<open>KeyError\<close> of the dict
  access, carrying the key.  It is the failure of any unknown name (\<open>xxxx\<close> below),
  and the public lookup of the certificate identifier fails in the same way;
  \<open>test_factory_cert_rsa_public\<close> and \<open>test_factory_cert_rsa_private\<close> expect the
  certificate variant and a dedicated failure.
\<close>

theorem create_private_key_params_cert:
  "create_private_key_params (VStr ''ssh-rsa-cert-v01@openssh.com'')
     = Inl (KeyError (VStr ''ssh-rsa-cert-v01@openssh.com''))
   \<and> create_public_key_params (VStr ''ssh-rsa-cert-v01@openssh.com'')
     = Inl (KeyError (VStr ''ssh-rsa-cert-v01@openssh.com''))
   \<and> create_private_key_params (VStr ''xxxx'') = Inl (KeyError (VStr ''xxxx''))"
  by (simp add: create_private_key_params_def create_public_key_params_def
      mapping_getitem_unknown)

text \<open>
  C5.  The public lookup of \<open>ssh-dss\<close>: the table has entries for \<open>ssh-rsa\<close> and
  \<open>ssh-ed25519\<close> only, so the lookup raises \<open>KeyError\<close> and returns no class, where
  \<open>test_factory_dss_public\<close> expects \<open>DSSPublicKeyParams\<close>.
\<close>

theorem create_public_key_params_dss:
  "create_public_key_params (VStr ''ssh-dss'') = Inl (KeyError (VStr ''ssh-dss''))"
  by (simp add: create_public_key_params_def mapping_getitem_unknown)

section \<open>Parameters objects\<close>

lemma params_init_data:
  "params_init c m = Inr (p, ws) \<Longrightarrow> data p = m \<and> params_class p = c"
  by (auto simp: params_init_def split: sum.splits)

text \<open>
  C3.  Construction can raise.  \<open>Ed25519PrivateKeyParams\<close> built from a mapping that
  has \<open>private_public\<close> (here 64 zero bytes) and no \<open>public\<close> raises \<open>KeyError\<close>: its
  check returns early only when \<open>private_public\<close> is missing and then indexes
  \<open>self.data['public']\<close>, where the check of \<open>Ed25519PublicKeyParams\<close> tests
  \<open>'public' in self.data\<close> first.  \<open>Ed25519PublicKeyParams\<close> built with an \<open>int\<close> under
  \<open>public\<close> raises \<open>TypeError\<close>, from \<open>len\<close>.  With a \<open>public\<close> of 31 bytes the
  construction succeeds, keeps the mapping and warns about the length 32.
\<close>

theorem Ed25519_params_init_raises:
  "params_init Ed25519PrivateKeyParams [''private_public'' \<mapsto> VBytes (replicate 64 0)]
     = Inl (KeyError (VStr ''public''))
   \<and> params_init Ed25519PublicKeyParams [''public'' \<mapsto> VInt 5] = Inl TypeError
   \<and> params_init Ed25519PublicKeyParams [''public'' \<mapsto> VBytes (replicate 31 0)]
     = Inr (\<lparr>params_class = Ed25519PublicKeyParams,
              data = [''public'' \<mapsto> VBytes (replicate 31 0)]\<rparr>,
            [Message ''Public key not of length 32''])"
  by (simp add: params_init_def Ed25519Private_check_params_are_valid_def
      Ed25519Public_check_params_are_valid_def KEY_SIZE_def)

text \<open>
  C4, as stated, fails: the RSA public and the RSA private parameters objects built
  from the same mapping (both without a warning) are of different classes and compare
  equal.
\<close>

theorem params_eq_across_classes:
  "params_init RSAPublicKeyParams rsa_private_example
     = Inr (\<lparr>params_class = RSAPublicKeyParams, data = rsa_private_example\<rparr>, [])
   \<and> params_init RSAPrivateKeyParams rsa_private_example
     = Inr (\<lparr>params_class = RSAPrivateKeyParams, data = rsa_private_example\<rparr>, [])
   \<and> RSAPublicKeyParams \<noteq> RSAPrivateKeyParams
   \<and> params_eq \<lparr>params_class = RSAPublicKeyParams, data = rsa_private_example\<rparr>
        \<lparr>params_class = RSAPrivateKeyParams, data = rsa_private_example\<rparr>"
  by (simp add: params_init_def params_eq_def rsa_private_example_def)

text \<open>
  C4, amended.  Two parameters objects compare equal if and only if the mappings they
  were built from are identical, whatever their classes.
\<close>

theorem params_eq_iff_same_mapping:
  "params_init c1 m1 = Inr (a, w1) \<Longrightarrow> params_init c2 m2 = Inr (b, w2) \<Longrightarrow>
     params_eq a b \<longleftrightarrow> m1 = m2"
  by (auto simp: params_eq_def dest: params_init_data)

theorem params_eq_iff_same_mapping_witness:
  "params_init RSAPublicKeyParams [''e'' \<mapsto> VInt 17, ''n'' \<mapsto> VInt 3233]
     = Inr (\<lparr>params_class = RSAPublicKeyParams,
              data = [''e'' \<mapsto> VInt 17, ''n'' \<mapsto> VInt 3233]\<rparr>, [])
   \<and> params_init RSAPublicKeyParams [''e'' \<mapsto> VInt 17, ''n'' \<mapsto> VInt 3127]
     = Inr (\<lparr>params_class = RSAPublicKeyParams,
              data = [''e'' \<mapsto> VInt 17, ''n'' \<mapsto> VInt 3127]\<rparr>, [])
   \<and> \<not> params_eq
        \<lparr>params_class = RSAPublicKeyParams,
          data = [''e'' \<mapsto> VInt 17, ''n'' \<mapsto> VInt 3233]\<rparr>
        \<lparr>params_class = RSAPublicKeyParams,
          data = [''e'' \<mapsto> VInt 17, ''n'' \<mapsto> VInt 3127]\<rparr>"
proof -
  let ?m1 = "[''e'' \<mapsto> VInt 17, ''n'' \<mapsto> VInt 3233]"
  let ?m2 = "[''e'' \<mapsto> VInt 17, ''n'' \<mapsto> VInt 3127]"
  have i1: "params_init RSAPublicKeyParams ?m1
      = Inr (\<lparr>params_class = RSAPublicKeyParams, data = ?m1\<rparr>, [])"
    by (simp add: params_init_def)
  have i2: "params_init RSAPublicKeyParams ?m2
      = Inr (\<lparr>params_class = RSAPublicKeyParams, data = ?m2\<rparr>, [])"
    by (simp add: params_init_def)
  have "?m1 ''n'' \<noteq> ?m2 ''n''" by simp
  then have ne: "?m1 \<noteq> ?m2" by metis
  from params_eq_iff_same_mapping [OF i1 i2] ne i1 i2 show ?thesis by simp
qed

section \<open>Key objects\<close>

lemma key_init_example:
  "key_init cls rsa_header_example rsa_private_example comment_example
     = Inr (example_key cls, [])"
  by (cases cls)
    (simp_all add: key_init_def example_key_def rsa_header_example_def
      rsa_private_example_def comment_example_def header_format_instructions_dict_def
      create_public_key_params_def create_private_key_params_def mapping_getitem_simps
      params_init_def)

lemma key_init_parts:
  assumes "key_init cls h p f = Inr (k, ws)"
  shows "key_class k = cls" and "header k = h" and "footer k = f" and "data (params k) = p"
    and "\<exists>kt. h ''key_type'' = Some kt \<and>
           (case cls of PublicKey \<Rightarrow> create_public_key_params kt
                      | PrivateKey \<Rightarrow> create_private_key_params kt)
             = Inr (params_class (params k))"
  using assms
  by (cases cls; auto simp: key_init_def params_init_def Let_def
      split: option.splits sum.splits)+

text \<open>
  C10.  Two keys are equal only when they are of the same class and their headers,
  parameters and footers are equal; a \<open>PrivateKey\<close> and a \<open>PublicKey\<close> are never equal,
  in either direction.
\<close>

theorem key_eq_same_class:
  "(key_eq a b \<longrightarrow>
      key_class a = key_class b \<and> header a = header b \<and>
      params_eq (params a) (params b) \<and> footer a = footer b)
   \<and> (key_class a = PrivateKey \<and> key_class b = PublicKey \<longrightarrow>
        \<not> key_eq a b \<and> \<not> key_eq b a)"
  by (auto simp: key_eq_def)

theorem key_eq_same_class_witness:
  "key_init PrivateKey rsa_header_example rsa_private_example comment_example
     = Inr (example_key PrivateKey, [])
   \<and> key_init PublicKey rsa_header_example rsa_private_example comment_example
     = Inr (example_key PublicKey, [])
   \<and> header (example_key PrivateKey) = header (example_key PublicKey)
   \<and> params_eq (params (example_key PrivateKey)) (params (example_key PublicKey))
   \<and> footer (example_key PrivateKey) = footer (example_key PublicKey)
   \<and> \<not> key_eq (example_key PrivateKey) (example_key PublicKey)
   \<and> \<not> key_eq (example_key PublicKey) (example_key PrivateKey)
   \<and> key_eq (example_key PublicKey) (example_key PublicKey)
   \<and> key_class (example_key PublicKey) = key_class (example_key PublicKey)"
  using key_eq_same_class [of "example_key PrivateKey" "example_key PublicKey"]
    key_eq_same_class [of "example_key PublicKey" "example_key PublicKey"]
  by (simp add: key_init_example example_key_def params_eq_def key_eq_def)

section \<open>Decoding an unknown key type\<close>

text \<open>
  C7.  When the header of the input parses and its \<open>key_type\<close> is a string that the
  table does not hold, decoding raises the \<open>KeyError\<close> of the table lookup, for
  \<open>PublicKey\<close> and \<open>PrivateKey\<close> alike, and returns no key.
\<close>

theorem from_bytes_unknown_key_type:
  assumes "read_from_format_instructions_dict (header_format_instructions_dict cls) bs
             = Inr (hdr, rest)"
    and "hdr ''key_type'' = Some (VStr s)"
    and "map_of KEY_TYPE_MAPPING s = None"
  shows "from_bytes cls bs = Inl (KeyError (VStr s))"
  using assms
  by (cases cls)
    (simp_all add: from_bytes_def from_byte_stream_def create_public_key_params_def
      create_private_key_params_def mapping_getitem_def)

lemma read_header_xxxx:
  "read_from_format_instructions_dict (header_format_instructions_dict PublicKey)
     [0, 0, 0, 4, 120, 120, 120, 120] = Inr ([''key_type'' \<mapsto> VStr ''xxxx''], [])"
  by (simp add: read_from_format_instructions_dict_def header_format_instructions_dict_def
      read_from_format_instruction_def read_length_prefixed_def read_u32_def read_bytes_def
      be_nat_def str_decode_def char_of_def bit_Suc_0_iff)

theorem from_bytes_unknown_key_type_witness:
  "from_bytes PublicKey [0, 0, 0, 4, 120, 120, 120, 120] = Inl (KeyError (VStr ''xxxx''))"
  using from_bytes_unknown_key_type [OF read_header_xxxx]
  by (simp add: KEY_TYPE_MAPPING_def)

section \<open>Decoding what was encoded\<close>

lemma check_dict_no_message:
  "Message s \<notin> set (check_dict_matches_format_instructions_dict d fid)"
  by (induction fid) (auto split: option.splits if_splits)

lemma write_dict_typed:
  "write_from_format_instructions_dict fid p = Inr out \<Longrightarrow> (k, t) \<in> set fid \<Longrightarrow>
     \<exists>v. p k = Some v \<and> matches_instruction t v"
proof (induction fid arbitrary: out)
  case Nil
  then show ?case by simp
next
  case (Cons a fid)
  obtain k' t' where a: "a = (k', t')" by (cases a)
  from Cons.prems(1) a obtain v o1 o2 where
    v: "p k' = Some v" and o1: "write_from_format_instruction t' v = Inr o1"
    and o2: "write_from_format_instructions_dict fid p = Inr o2"
    by (auto split: option.splits sum.splits)
  from o1 have "matches_instruction t' v"
    by (cases "(t', v)" rule: write_from_format_instruction.cases) simp_all
  with Cons.IH [OF o2] Cons.prems(2) a v show ?case by auto
qed

lemma create_public_cases:
  "create_public_key_params kt = Inr c \<Longrightarrow>
     (kt = VStr ''ssh-rsa'' \<and> c = RSAPublicKeyParams) \<or>
     (kt = VStr ''ssh-ed25519'' \<and> c = Ed25519PublicKeyParams)"
  by (auto simp: create_public_key_params_def mapping_getitem_def KEY_TYPE_MAPPING_def
      split: pvalue.splits if_splits)

lemma create_private_cases:
  "create_private_key_params kt = Inr c \<Longrightarrow>
     (kt = VStr ''ssh-rsa'' \<and> c = RSAPrivateKeyParams) \<or>
     (kt = VStr ''ssh-ed25519'' \<and> c = Ed25519PrivateKeyParams)"
  by (auto simp: create_private_key_params_def mapping_getitem_def KEY_TYPE_MAPPING_def
      split: pvalue.splits if_splits)

lemma matches_BYTES: "matches_instruction BYTES v \<Longrightarrow> \<exists>b. v = VBytes b"
  by (cases v) simp_all

lemma check_params_decoded_public:
  assumes "c = RSAPublicKeyParams \<or> c = Ed25519PublicKeyParams"
    and w: "write_from_format_instructions_dict (public_format_instructions_dict c) p = Inr out"
  shows "\<exists>ws. check_params_are_valid c (p |` field_names (public_format_instructions_dict c))
           = Inr ws \<and> Message ''Excess bytes in key'' \<notin> set ws"
  using assms(1)
proof
  assume "c = RSAPublicKeyParams"
  then show ?thesis
    by (simp add: check_dict_no_message
        del: check_dict_matches_format_instructions_dict.simps)
next
  assume c: "c = Ed25519PublicKeyParams"
  from write_dict_typed [OF w, of "''public''" BYTES] c
  obtain b where "p ''public'' = Some (VBytes b)"
    by (auto dest: matches_BYTES)
  with c show ?thesis
    by (simp add: Ed25519Public_check_params_are_valid_def)
qed

lemma check_params_decoded_private:
  assumes "private_format_instructions_dict c = Inr fid"
    and w: "write_from_format_instructions_dict fid p = Inr out"
  shows "\<exists>ws. check_params_are_valid c (p |` field_names fid) = Inr ws
            \<and> Message ''Excess bytes in key'' \<notin> set ws"
proof (cases c)
  case RSAPrivateKeyParams
  then show ?thesis
    by (simp add: check_dict_no_message
        del: check_dict_matches_format_instructions_dict.simps)
next
  case Ed25519PrivateKeyParams
  with assms(1) have fid: "fid = [(''public'', BYTES), (''private_public'', BYTES)]" by simp
  from write_dict_typed [OF w, of "''public''" BYTES] fid
  obtain b where b: "p ''public'' = Some (VBytes b)"
    by (auto dest: matches_BYTES)
  from write_dict_typed [OF w, of "''private_public''" BYTES] fid
  obtain b' where b': "p ''private_public'' = Some (VBytes b')"
    by (auto dest: matches_BYTES)
  from Ed25519PrivateKeyParams fid b b' show ?thesis
    by (simp add: Ed25519Private_check_params_are_valid_def
        Ed25519Public_check_params_are_valid_def Let_def)
qed (use assms(1) in simp_all)


lemma key_init_shape:
  assumes "key_init cls h p f = Inr (k, ws)"
  shows "\<exists>kt c. h ''key_type'' = Some kt
           \<and> (case cls of PublicKey \<Rightarrow> create_public_key_params kt
                         | PrivateKey \<Rightarrow> create_private_key_params kt) = Inr c
           \<and> k = \<lparr>key_class = cls, header = h, params = \<lparr>params_class = c, data = p\<rparr>,
                  footer = f, bytes = None, remainder = None\<rparr>"
  using assms
  by (cases cls; auto simp: key_init_def params_init_def Let_def
      split: option.splits sum.splits)

lemma from_byte_stream_pack_public:
  assumes init: "key_init PublicKey h p f = Inr (k, ws)"
    and pack: "pack_public k = Inr bs"
  shows "\<exists>ws'. from_byte_stream PublicKey (bs @ trailer) = Inr (written_part k, ws', trailer)
            \<and> Message ''Excess bytes in key'' \<notin> set ws'"
proof -
  from key_init_shape [OF init] obtain kt c where
    kt: "h ''key_type'' = Some kt" and c: "create_public_key_params kt = Inr c"
    and k: "k = \<lparr>key_class = PublicKey, header = h,
                  params = \<lparr>params_class = c, data = p\<rparr>,
                  footer = f, bytes = None, remainder = None\<rparr>"
    by auto
  let ?hf = "header_format_instructions_dict PublicKey"
  let ?pf = "public_format_instructions_dict c"
  from pack k obtain ho po where
    ho: "write_from_format_instructions_dict ?hf h = Inr ho"
    and po: "write_from_format_instructions_dict ?pf p = Inr po"
    and bs: "bs = ho @ po"
    by (auto simp: pack_public_def split: sum.splits)
  have r1: "read_from_format_instructions_dict ?hf (ho @ (po @ trailer))
      = Inr (h |` field_names ?hf, po @ trailer)"
    using ho by (rule read_dict_write)
  have hk: "(h |` field_names ?hf) ''key_type'' = Some kt"
    using kt by (simp add: header_format_instructions_dict_def)
  have r2: "create_key_params_dict PublicKey kt (po @ trailer)
      = Inr (p |` field_names ?pf, trailer)"
    using c read_dict_write [OF po, of trailer] by simp
  have r3: "read_from_format_instructions_dict (footer_format_instructions_dict PublicKey)
      trailer = Inr (Map.empty, trailer)"
    by (simp add: read_from_format_instructions_dict_def)
  from create_public_cases [OF c]
  have "c = RSAPublicKeyParams \<or> c = Ed25519PublicKeyParams" by auto
  from check_params_decoded_public [OF this po] obtain ws2 where
    ws2: "check_params_are_valid c (p |` field_names ?pf) = Inr ws2"
    and no: "Message ''Excess bytes in key'' \<notin> set ws2"
    by auto
  have wp: "written_part k
      = \<lparr>key_class = PublicKey, header = h |` field_names ?hf,
         params = \<lparr>params_class = c, data = p |` field_names ?pf\<rparr>,
         footer = Map.empty, bytes = None, remainder = None\<rparr>"
    by (simp add: written_part_def k params_format_def)
  have i: "key_init PublicKey (h |` field_names ?hf) (p |` field_names ?pf) Map.empty
      = Inr (written_part k,
             check_dict_matches_format_instructions_dict (h |` field_names ?hf) ?hf @ ws2)"
    using hk c ws2 by (simp add: key_init_def params_init_def wp)
  have "from_byte_stream PublicKey (bs @ trailer)
      = Inr (written_part k,
             check_dict_matches_format_instructions_dict (h |` field_names ?hf) ?hf @ ws2,
             trailer)"
    using r1 hk r2 r3 i by (simp add: from_byte_stream_def bs)
  with no show ?thesis
    by (auto simp: check_dict_no_message)
qed

lemma from_byte_stream_pack_private:
  assumes init: "key_init PrivateKey h p f = Inr (k, ws)"
    and pack: "pack_private k = Inr bs"
  shows "\<exists>ws'. from_byte_stream PrivateKey (bs @ trailer) = Inr (written_part k, ws', trailer)
            \<and> Message ''Excess bytes in key'' \<notin> set ws'"
proof -
  from key_init_shape [OF init] obtain kt c where
    kt: "h ''key_type'' = Some kt" and c: "create_private_key_params kt = Inr c"
    and k: "k = \<lparr>key_class = PrivateKey, header = h,
                  params = \<lparr>params_class = c, data = p\<rparr>,
                  footer = f, bytes = None, remainder = None\<rparr>"
    by auto
  let ?hf = "header_format_instructions_dict PrivateKey"
  let ?ff = "footer_format_instructions_dict PrivateKey"
  from pack k obtain ho pf po fo where
    ho: "write_from_format_instructions_dict ?hf h = Inr ho"
    and pf: "private_format_instructions_dict c = Inr pf"
    and po: "write_from_format_instructions_dict pf p = Inr po"
    and fo: "write_from_format_instructions_dict ?ff f = Inr fo"
    and bs: "bs = ho @ po @ fo"
    by (auto simp: pack_private_def split: sum.splits)
  have r1: "read_from_format_instructions_dict ?hf (ho @ (po @ fo @ trailer))
      = Inr (h |` field_names ?hf, po @ fo @ trailer)"
    using ho by (rule read_dict_write)
  have hk: "(h |` field_names ?hf) ''key_type'' = Some kt"
    using kt by (simp add: header_format_instructions_dict_def)
  have r2: "create_key_params_dict PrivateKey kt (po @ (fo @ trailer))
      = Inr (p |` field_names pf, fo @ trailer)"
    using c pf read_dict_write [OF po, of "fo @ trailer"] by simp
  have r3: "read_from_format_instructions_dict ?ff (fo @ trailer)
      = Inr (f |` field_names ?ff, trailer)"
    using fo by (rule read_dict_write)
  from check_params_decoded_private [OF pf po] obtain ws2 where
    ws2: "check_params_are_valid c (p |` field_names pf) = Inr ws2"
    and no: "Message ''Excess bytes in key'' \<notin> set ws2"
    by auto
  have wp: "written_part k
      = \<lparr>key_class = PrivateKey, header = h |` field_names ?hf,
         params = \<lparr>params_class = c, data = p |` field_names pf\<rparr>,
         footer = f |` field_names ?ff, bytes = None, remainder = None\<rparr>"
    by (simp add: written_part_def k params_format_def pf)
  let ?ws = "check_dict_matches_format_instructions_dict (h |` field_names ?hf) ?hf @ ws2
      @ check_dict_matches_format_instructions_dict (f |` field_names ?ff) ?ff"
  have i: "key_init PrivateKey (h |` field_names ?hf) (p |` field_names pf)
      (f |` field_names ?ff) = Inr (written_part k, ?ws)"
    using hk c ws2 by (simp add: key_init_def params_init_def wp)
  have "from_byte_stream PrivateKey (bs @ trailer) = Inr (written_part k, ?ws, trailer)"
    using r1 hk r2 r3 i by (simp add: from_byte_stream_def bs)
  moreover have "Message ''Excess bytes in key'' \<notin> set ?ws"
    using no
    by (simp add: check_dict_no_message del: check_dict_matches_format_instructions_dict.simps)
  ultimately show ?thesis by blast
qed

lemma restrict_map_eq_self: "m |` S = m \<longleftrightarrow> dom m \<subseteq> S"
proof
  assume "m |` S = m"
  then have "dom (m |` S) = dom m" by simp
  then show "dom m \<subseteq> S" by auto
next
  assume d: "dom m \<subseteq> S"
  show "m |` S = m"
  proof
    fix x
    show "(m |` S) x = m x"
    proof (cases "x \<in> S")
      case True
      then show ?thesis by simp
    next
      case False
      with d have "m x = None" by (auto simp: domIff)
      with False show ?thesis by simp
    qed
  qed
qed

lemma key_eq_written_part: "key_eq ((written_part k)\<lparr>bytes := b, remainder := r\<rparr>) k \<longleftrightarrow> no_extra_fields k"
  by (simp add: key_eq_def written_part_def no_extra_fields_def params_eq_def
      restrict_map_eq_self)

lemma from_byte_stream_encode:
  assumes init: "key_init cls h p f = Inr (k, ws)"
    and enc: "encode k = Inr bs"
  shows "\<exists>ws'. from_byte_stream cls (bs @ trailer) = Inr (written_part k, ws', trailer)
            \<and> Message ''Excess bytes in key'' \<notin> set ws'"
proof (cases cls)
  case PublicKey
  with key_init_parts(1) [OF init] enc have "pack_public k = Inr bs"
    by (simp add: encode_def)
  with init PublicKey show ?thesis
    by (simp add: from_byte_stream_pack_public)
next
  case PrivateKey
  with key_init_parts(1) [OF init] enc have "pack_private k = Inr bs"
    by (simp add: encode_def)
  with init PrivateKey show ?thesis
    by (simp add: from_byte_stream_pack_private)
qed

lemma from_bytes_encode:
  assumes "key_init cls h p f = Inr (k, ws)"
    and "encode k = Inr bs"
  shows "\<exists>ws'. from_bytes cls (bs @ trailer)
             = Inr ((written_part k)\<lparr>bytes := Some (bs @ trailer),
                      remainder := (if trailer = [] then None else Some trailer)\<rparr>,
                    ws')
            \<and> (Message ''Excess bytes in key'' \<in> set ws' \<longleftrightarrow> trailer \<noteq> [])"
proof -
  from from_byte_stream_encode [OF assms, of trailer] obtain ws' where
    s: "from_byte_stream cls (bs @ trailer) = Inr (written_part k, ws', trailer)"
    and no: "Message ''Excess bytes in key'' \<notin> set ws'" by auto
  from key_init_shape [OF assms(1)] have r: "remainder (written_part k) = None"
    by (auto simp: written_part_def)
  show ?thesis
  proof (cases "trailer = []")
    case True
    have "x\<lparr>bytes := b, remainder := None\<rparr> = x\<lparr>bytes := b\<rparr>"
      if "remainder x = None" for x :: key and b
      using that by (cases x) simp
    from this [OF r] True s no show ?thesis
      by (simp add: from_bytes_def)
  next
    case False
    with s no show ?thesis
      by (simp add: from_bytes_def)
  qed
qed

section \<open>The examples, evaluated\<close>

lemma key_init_rsa_public_example:
  "key_init PublicKey rsa_header_example rsa_public_example Map.empty
     = Inr (rsa_public_key_example, [])"
  by (simp add: key_init_def rsa_header_example_def rsa_public_example_def
      rsa_public_key_example_def header_format_instructions_dict_def
      create_public_key_params_def mapping_getitem_simps params_init_def)

lemma key_init_rsa_extra_example:
  "key_init PublicKey rsa_header_example rsa_extra_example Map.empty
     = Inr (rsa_extra_key_example, [])"
  by (simp add: key_init_def rsa_header_example_def rsa_extra_example_def
      rsa_extra_key_example_def header_format_instructions_dict_def
      create_public_key_params_def mapping_getitem_simps params_init_def)

lemma mpint_bytes_examples:
  "mpint_bytes 65537 = [1, 0, 1]"
  "mpint_bytes 3233 = [12, 161]"
  "mpint_bytes 17 = [17]"
  "mpint_bytes 413 = [1, 157]"
  "mpint_bytes 38 = [38]"
  "mpint_bytes 61 = [61]"
  "mpint_bytes 53 = [53]"
  by (simp_all add: mpint_bytes_def twos.simps)

lemma str_encode_examples:
  "str_encode ''ssh-rsa'' = [115, 115, 104, 45, 114, 115, 97]"
  "str_encode ''test@host'' = [116, 101, 115, 116, 64, 104, 111, 115, 116]"
  by (simp_all add: str_encode_def)

lemma be_bytes_4:
  "be_bytes 4 n = [of_nat (n div 256 div 256 div 256), of_nat (n div 256 div 256),
                   of_nat (n div 256), of_nat n]"
proof -
  have "(4::nat) = Suc (Suc (Suc (Suc 0)))" by simp
  then show ?thesis by (simp only: be_bytes.simps append.simps)
qed

lemma pack_public_rsa_public_example:
  "pack_public rsa_public_key_example = Inr rsa_public_bytes_example"
  by (simp add: rsa_public_key_example_def pack_public_def
      header_format_instructions_dict_def rsa_header_example_def rsa_public_example_def
      write_length_prefixed_def mpint_bytes_examples str_encode_examples
      rsa_public_bytes_example_def be_bytes_4)

lemma pack_public_rsa_extra_example:
  "pack_public rsa_extra_key_example = Inr rsa_public_bytes_example"
  by (simp add: rsa_extra_key_example_def pack_public_def
      header_format_instructions_dict_def rsa_header_example_def rsa_extra_example_def
      write_length_prefixed_def mpint_bytes_examples str_encode_examples
      rsa_public_bytes_example_def be_bytes_4)

lemma pack_private_example:
  "pack_private (example_key PrivateKey) = Inr rsa_private_bytes_example"
  by (simp add: example_key_def pack_private_def
      header_format_instructions_dict_def rsa_header_example_def rsa_private_example_def
      comment_example_def
      write_length_prefixed_def mpint_bytes_examples str_encode_examples
      rsa_private_bytes_example_def be_bytes_4)

lemma no_extra_rsa_public_example: "no_extra_fields rsa_public_key_example"
  by (simp add: no_extra_fields_def rsa_public_key_example_def params_format_def
      header_format_instructions_dict_def rsa_header_example_def rsa_public_example_def)

lemma no_extra_private_example: "no_extra_fields (example_key PrivateKey)"
  by (simp add: no_extra_fields_def example_key_def params_format_def
      header_format_instructions_dict_def rsa_header_example_def rsa_private_example_def
      comment_example_def)

lemma written_part_rsa_extra_example:
  "written_part rsa_extra_key_example = rsa_public_key_example"
  by (simp add: written_part_def rsa_extra_key_example_def rsa_public_key_example_def
      params_format_def rsa_extra_example_def rsa_public_example_def
      header_format_instructions_dict_def rsa_header_example_def fun_eq_iff restrict_map_def)

lemma extra_rsa_extra_example: "\<not> no_extra_fields rsa_extra_key_example"
  by (simp add: no_extra_fields_def rsa_extra_key_example_def params_format_def
      rsa_extra_example_def)

lemma str_decode_ssh_rsa: "str_decode [115, 115, 104, 45, 114, 115, 97] = ''ssh-rsa''"
  using str_decode_encode [of "''ssh-rsa''"] by (simp only: str_encode_examples)

lemma read_length_prefixed_cons:
  "read_length_prefixed (a # b # c # d # bs) =
     read_bytes (be_nat [a, b, c, d]) bs"
  by (simp add: read_length_prefixed_def read_u32_def read_bytes_def)

lemma from_byte_stream_rsa_public_bytes:
  "from_byte_stream PublicKey (rsa_public_bytes_example @ trailer)
     = Inr (rsa_public_key_example, [], trailer)"
  by (simp add: from_byte_stream_def rsa_public_bytes_example_def
      read_from_format_instructions_dict_def header_format_instructions_dict_def
      read_from_format_instruction_def read_length_prefixed_cons read_bytes_def
      be_nat_def str_decode_ssh_rsa create_public_key_params_def mapping_getitem_simps
      key_init_def params_init_def rsa_public_key_example_def rsa_header_example_def
      rsa_public_example_def)

section \<open>The round trip\<close>

text \<open>
  C1, as stated, fails: the public RSA key built with the field \<open>bits\<close> beside \<open>e\<close> and
  \<open>n\<close> is built without a warning, its encoding does not hold \<open>bits\<close>, and decoding
  the encoding gives a key that is not equal to it.
\<close>

theorem decode_encode_extra_field:
  "key_init PublicKey rsa_header_example rsa_extra_example Map.empty
     = Inr (rsa_extra_key_example, [])
   \<and> pack_public rsa_extra_key_example = Inr rsa_public_bytes_example
   \<and> from_bytes PublicKey rsa_public_bytes_example
     = Inr (rsa_public_key_example\<lparr>bytes := Some rsa_public_bytes_example\<rparr>, [])
   \<and> \<not> key_eq (rsa_public_key_example\<lparr>bytes := Some rsa_public_bytes_example\<rparr>)
          rsa_extra_key_example"
proof -
  have "from_bytes PublicKey rsa_public_bytes_example
      = Inr (rsa_public_key_example\<lparr>bytes := Some rsa_public_bytes_example\<rparr>, [])"
    using from_byte_stream_rsa_public_bytes [of "[]"] by (simp add: from_bytes_def)
  moreover have "\<not> key_eq (rsa_public_key_example\<lparr>bytes := Some rsa_public_bytes_example\<rparr>)
      rsa_extra_key_example"
  proof
    assume "key_eq (rsa_public_key_example\<lparr>bytes := Some rsa_public_bytes_example\<rparr>)
      rsa_extra_key_example"
    then have "rsa_public_example = rsa_extra_example"
      by (simp add: key_eq_def params_eq_def rsa_public_key_example_def
          rsa_extra_key_example_def)
    then have "rsa_public_example ''bits'' = rsa_extra_example ''bits''" by simp
    then show False by (simp add: rsa_public_example_def rsa_extra_example_def)
  qed
  ultimately show ?thesis
    by (simp add: key_init_rsa_extra_example pack_public_rsa_extra_example)
qed

text \<open>
  C1, amended.  For a key \<open>k\<close> built by \<open>PublicKey(header, params, footer)\<close> or
  \<open>PrivateKey(header, params, footer)\<close> whose encoding (\<open>pack_public\<close>, respectively
  \<open>pack_private\<close>) succeeds, decoding the encoding with \<open>from_bytes\<close> of the same class
  succeeds and gives a key equal to \<open>k\<close> restricted to the fields of the header,
  parameters and footer formats; it is equal to \<open>k\<close> if and only if \<open>k\<close> holds no
  field beyond those formats.
\<close>

theorem decode_encode:
  assumes "key_init cls h p f = Inr (k, ws)"
    and "encode k = Inr bs"
  shows "\<exists>k' ws'. from_bytes cls bs = Inr (k', ws')
            \<and> key_eq k' (written_part k)
            \<and> (key_eq k' k \<longleftrightarrow> no_extra_fields k)"
proof -
  from from_bytes_encode [OF assms, of "[]"] obtain ws' where
    "from_bytes cls bs = Inr ((written_part k)\<lparr>bytes := Some bs, remainder := None\<rparr>, ws')"
    by auto
  moreover have "key_eq ((written_part k)\<lparr>bytes := Some bs, remainder := None\<rparr>) k
      \<longleftrightarrow> no_extra_fields k"
    by (rule key_eq_written_part)
  moreover have "key_eq ((written_part k)\<lparr>bytes := Some bs, remainder := None\<rparr>)
      (written_part k)"
    by (simp add: key_eq_def params_eq_def)
  ultimately show ?thesis by blast
qed

theorem decode_encode_witness:
  "key_init PublicKey rsa_header_example rsa_public_example Map.empty
     = Inr (rsa_public_key_example, [])
   \<and> encode rsa_public_key_example = Inr rsa_public_bytes_example
   \<and> no_extra_fields rsa_public_key_example
   \<and> (\<exists>k' ws'. from_bytes PublicKey rsa_public_bytes_example = Inr (k', ws')
          \<and> key_eq k' rsa_public_key_example)
   \<and> key_init PrivateKey rsa_header_example rsa_private_example comment_example
     = Inr (example_key PrivateKey, [])
   \<and> encode (example_key PrivateKey) = Inr rsa_private_bytes_example
   \<and> no_extra_fields (example_key PrivateKey)
   \<and> (\<exists>k' ws'. from_bytes PrivateKey rsa_private_bytes_example = Inr (k', ws')
          \<and> key_eq k' (example_key PrivateKey))"
proof -
  have e1: "encode rsa_public_key_example = Inr rsa_public_bytes_example"
    using pack_public_rsa_public_example
    by (simp add: encode_def rsa_public_key_example_def)
  have e2: "encode (example_key PrivateKey) = Inr rsa_private_bytes_example"
    using pack_private_example by (simp add: encode_def example_key_def)
  from decode_encode [OF key_init_rsa_public_example e1] no_extra_rsa_public_example
  have "\<exists>k' ws'. from_bytes PublicKey rsa_public_bytes_example = Inr (k', ws')
          \<and> key_eq k' rsa_public_key_example"
    by blast
  moreover from decode_encode [OF key_init_example e2] no_extra_private_example
  have "\<exists>k' ws'. from_bytes PrivateKey rsa_private_bytes_example = Inr (k', ws')
          \<and> key_eq k' (example_key PrivateKey)"
    by blast
  ultimately show ?thesis
    using e1 e2 key_init_rsa_public_example key_init_example [of PrivateKey]
      no_extra_rsa_public_example no_extra_private_example
    by blast
qed

section \<open>Excess bytes\<close>

text \<open>
  C6, as stated, fails on the same kind of key: decoding the encoding of the key built
  with the field \<open>bits\<close>, followed by the byte \<open>ff\<close>, keeps the remainder and warns,
  and the key it returns is not equal to the encoded one.
\<close>

theorem decode_encode_trailer_extra_field:
  "key_init PublicKey rsa_header_example rsa_extra_example Map.empty
     = Inr (rsa_extra_key_example, [])
   \<and> pack_public rsa_extra_key_example = Inr rsa_public_bytes_example
   \<and> from_bytes PublicKey (rsa_public_bytes_example @ [255])
     = Inr (rsa_public_key_example\<lparr>bytes := Some (rsa_public_bytes_example @ [255]),
                                    remainder := Some [255]\<rparr>,
            [Message ''Excess bytes in key''])
   \<and> \<not> key_eq (rsa_public_key_example\<lparr>bytes := Some (rsa_public_bytes_example @ [255]),
                                         remainder := Some [255]\<rparr>)
          rsa_extra_key_example"
proof -
  have "from_bytes PublicKey (rsa_public_bytes_example @ [255])
     = Inr (rsa_public_key_example\<lparr>bytes := Some (rsa_public_bytes_example @ [255]),
                                    remainder := Some [255]\<rparr>,
            [Message ''Excess bytes in key''])"
    using from_byte_stream_rsa_public_bytes [of "[255]"] by (simp add: from_bytes_def)
  moreover have "\<not> key_eq (rsa_public_key_example\<lparr>bytes := Some (rsa_public_bytes_example @ [255]),
                                         remainder := Some [255]\<rparr>)
      rsa_extra_key_example"
  proof
    assume "key_eq (rsa_public_key_example\<lparr>bytes := Some (rsa_public_bytes_example @ [255]),
                                         remainder := Some [255]\<rparr>)
      rsa_extra_key_example"
    then have "rsa_public_example = rsa_extra_example"
      by (simp add: key_eq_def params_eq_def rsa_public_key_example_def
          rsa_extra_key_example_def)
    then have "rsa_public_example ''bits'' = rsa_extra_example ''bits''" by simp
    then show False by (simp add: rsa_public_example_def rsa_extra_example_def)
  qed
  ultimately show ?thesis
    by (simp add: key_init_rsa_extra_example pack_public_rsa_extra_example)
qed

text \<open>
  C6, amended.  For a key \<open>k\<close> built by the constructor of its class whose encoding
  succeeds, and any byte string \<open>trailer\<close>, decoding the encoding followed by
  \<open>trailer\<close> succeeds and gives a key equal to \<open>k\<close> restricted to the fields of its
  formats (equal to \<open>k\<close> if and only if \<open>k\<close> holds no field beyond them); when
  \<open>trailer\<close> is not empty the key carries it as \<open>remainder\<close> and the warning
  \<open>Excess bytes in key\<close> is emitted, and when it is empty there is no remainder and no
  such warning.
\<close>

theorem decode_encode_trailer:
  assumes "key_init cls h p f = Inr (k, ws)"
    and "encode k = Inr bs"
  shows "\<exists>k' ws'. from_bytes cls (bs @ trailer) = Inr (k', ws')
            \<and> key_eq k' (written_part k)
            \<and> (key_eq k' k \<longleftrightarrow> no_extra_fields k)
            \<and> remainder k' = (if trailer = [] then None else Some trailer)
            \<and> (Message ''Excess bytes in key'' \<in> set ws' \<longleftrightarrow> trailer \<noteq> [])"
proof -
  let ?k' = "(written_part k)\<lparr>bytes := Some (bs @ trailer),
      remainder := (if trailer = [] then None else Some trailer)\<rparr>"
  from from_bytes_encode [OF assms, of trailer] obtain ws' where
    "from_bytes cls (bs @ trailer) = Inr (?k', ws')"
    and "Message ''Excess bytes in key'' \<in> set ws' \<longleftrightarrow> trailer \<noteq> []"
    by auto
  moreover have "key_eq ?k' k \<longleftrightarrow> no_extra_fields k"
    by (rule key_eq_written_part)
  moreover have "key_eq ?k' (written_part k)"
    by (simp add: key_eq_def params_eq_def)
  moreover have "remainder ?k' = (if trailer = [] then None else Some trailer)"
    by simp
  ultimately show ?thesis by blast
qed

theorem decode_encode_trailer_witness:
  "key_init PrivateKey rsa_header_example rsa_private_example comment_example
     = Inr (example_key PrivateKey, [])
   \<and> encode (example_key PrivateKey) = Inr rsa_private_bytes_example
   \<and> no_extra_fields (example_key PrivateKey)
   \<and> (\<exists>k' ws'. from_bytes PrivateKey (rsa_private_bytes_example @ [1, 2, 3]) = Inr (k', ws')
          \<and> key_eq k' (example_key PrivateKey)
          \<and> remainder k' = Some [1, 2, 3]
          \<and> Message ''Excess bytes in key'' \<in> set ws')
   \<and> (\<exists>k' ws'. from_bytes PrivateKey rsa_private_bytes_example = Inr (k', ws')
          \<and> key_eq k' (example_key PrivateKey)
          \<and> remainder k' = None
          \<and> Message ''Excess bytes in key'' \<notin> set ws')"
proof -
  have e2: "encode (example_key PrivateKey) = Inr rsa_private_bytes_example"
    using pack_private_example by (simp add: encode_def example_key_def)
  from decode_encode_trailer [OF key_init_example e2, of "[1, 2, 3]"]
    no_extra_private_example
  have "\<exists>k' ws'. from_bytes PrivateKey (rsa_private_bytes_example @ [1, 2, 3]) = Inr (k', ws')
          \<and> key_eq k' (example_key PrivateKey)
          \<and> remainder k' = Some [1, 2, 3]
          \<and> Message ''Excess bytes in key'' \<in> set ws'"
    by simp blast
  moreover from decode_encode_trailer [OF key_init_example e2, of "[]"]
    no_extra_private_example
  have "\<exists>k' ws'. from_bytes PrivateKey rsa_private_bytes_example = Inr (k', ws')
          \<and> key_eq k' (example_key PrivateKey)
          \<and> remainder k' = None
          \<and> Message ''Excess bytes in key'' \<notin> set ws'"
    by simp blast
  ultimately show ?thesis
    using e2 key_init_example [of PrivateKey] no_extra_private_example
    by blast
qed

section \<open>Fields beyond the format\<close>

lemma write_dict_cong:
  "(\<And>name. name \<in> field_names fid \<Longrightarrow> m1 name = m2 name) \<Longrightarrow>
     write_from_format_instructions_dict fid m1 = write_from_format_instructions_dict fid m2"
  by (induction fid) (auto split: option.splits sum.splits)

text \<open>
  C9.  A key built from a parameters mapping keeps every field of the mapping in its
  parameters object, and the encoding reads the fields of the format only: two keys
  of one class built with the same header and footer, whose parameter mappings agree
  on the fields of the format, have the same \<open>pack_public\<close> output (for the public
  format) and the same encoding (for the format of their class).
\<close>

theorem extra_fields_not_written:
  assumes "key_init cls h m1 f = Inr (k1, w1)"
    and "key_init cls h m2 f = Inr (k2, w2)"
  shows "data (params k1) = m1 \<and> data (params k2) = m2
     \<and> ((\<forall>name \<in> field_names (public_format_instructions_dict (params_class (params k1))).
            m1 name = m2 name)
          \<longrightarrow> pack_public k1 = pack_public k2)
     \<and> ((\<forall>name \<in> field_names (params_format k1). m1 name = m2 name)
          \<longrightarrow> encode k1 = encode k2)"
proof -
  from key_init_shape [OF assms(1)] obtain kt c where
    kt: "h ''key_type'' = Some kt"
    and c: "(case cls of PublicKey \<Rightarrow> create_public_key_params kt
                       | PrivateKey \<Rightarrow> create_private_key_params kt) = Inr c"
    and k1: "k1 = \<lparr>key_class = cls, header = h, params = \<lparr>params_class = c, data = m1\<rparr>,
                  footer = f, bytes = None, remainder = None\<rparr>"
    by auto
  from key_init_shape [OF assms(2)] kt c have
    k2: "k2 = \<lparr>key_class = cls, header = h, params = \<lparr>params_class = c, data = m2\<rparr>,
                  footer = f, bytes = None, remainder = None\<rparr>"
    by auto
  have pub: "pack_public k1 = pack_public k2"
    if "\<forall>name \<in> field_names (public_format_instructions_dict c). m1 name = m2 name"
    using write_dict_cong [of "public_format_instructions_dict c" m1 m2] that
    by (simp add: pack_public_def k1 k2 cong: sum.case_cong)
  have priv: "pack_private k1 = pack_private k2"
    if "private_format_instructions_dict c = Inr fid"
      and "\<forall>name \<in> field_names fid. m1 name = m2 name" for fid
    using write_dict_cong [of fid m1 m2] that
    by (simp add: pack_private_def k1 k2 cong: sum.case_cong)
  have priv': "pack_private k1 = pack_private k2"
    if "private_format_instructions_dict c = Inl e" for e
    using that by (simp add: pack_private_def k1 k2 cong: sum.case_cong)
  have enc: "encode k1 = encode k2"
    if "\<forall>name \<in> field_names (params_format k1). m1 name = m2 name"
  proof (cases cls)
    case PublicKey
    with that pub show ?thesis by (simp add: encode_def k1 k2 params_format_def)
  next
    case PrivateKey
    show ?thesis
    proof (cases "private_format_instructions_dict c")
      case (Inl e)
      with priv' PrivateKey show ?thesis by (simp add: encode_def k1 k2)
    next
      case (Inr fid)
      with that PrivateKey have "\<forall>name \<in> field_names fid. m1 name = m2 name"
        by (simp add: params_format_def k1)
      from priv [OF Inr this] PrivateKey show ?thesis by (simp add: encode_def k1 k2)
    qed
  qed
  from pub enc show ?thesis by (simp add: k1 k2)
qed

theorem extra_fields_not_written_witness:
  "key_init PublicKey rsa_header_example rsa_extra_example Map.empty
     = Inr (rsa_extra_key_example, [])
   \<and> key_init PublicKey rsa_header_example rsa_public_example Map.empty
     = Inr (rsa_public_key_example, [])
   \<and> data (params rsa_extra_key_example) ''bits'' = Some (VInt 17)
   \<and> data (params rsa_public_key_example) ''bits'' = None
   \<and> rsa_extra_example ''e'' = rsa_public_example ''e''
   \<and> rsa_extra_example ''n'' = rsa_public_example ''n''
   \<and> pack_public rsa_extra_key_example = pack_public rsa_public_key_example
   \<and> encode rsa_extra_key_example = encode rsa_public_key_example
   \<and> pack_public rsa_public_key_example = Inr rsa_public_bytes_example"
  using extra_fields_not_written [OF key_init_rsa_extra_example key_init_rsa_public_example]
    pack_public_rsa_public_example key_init_rsa_extra_example key_init_rsa_public_example
  by (simp add: rsa_extra_key_example_def rsa_public_key_example_def params_format_def
      rsa_extra_example_def rsa_public_example_def encode_def)

section \<open>Conversion to key objects: results\<close>

text \<open>
  The loops of \<open>common.py\<close> are the walk the specification describes.
\<close>

lemma find_append_cases:
  "find P (xs @ ys) = (case find P xs of None \<Rightarrow> find P ys | Some x \<Rightarrow> Some x)"
  by (induction xs) simp_all

lemma candidate_loop_find:
  "candidate_loop issub t adapters
     = map_option snd (find (\<lambda>(registered, f). issub registered t) adapters)"
  by (induction adapters) auto

lemma supercls_loop_spec:
  "supercls_loop is_params cfs issub self t chain
     = convert_to_spec issub (adapters_on_chain is_params cfs chain) self t"
proof (induction chain)
  case Nil
  then show ?case by (simp add: convert_to_spec_def adapters_on_chain_def)
next
  case (Cons c chain)
  show ?case
  proof (cases "is_params c")
    case False
    then show ?thesis by (simp add: convert_to_spec_def adapters_on_chain_def)
  next
    case True
    show ?thesis
    proof (cases "find (\<lambda>(registered, f). issub registered t) (cfs c)")
      case None
      with True Cons.IH show ?thesis
        by (simp add: convert_to_spec_def adapters_on_chain_def candidate_loop_find
            find_append_cases)
    next
      case (Some a)
      with True show ?thesis
        by (cases a)
          (simp add: convert_to_spec_def adapters_on_chain_def candidate_loop_find
            find_append_cases)
    qed
  qed
qed

text \<open>
  C8.  The parameters objects that \<open>key_params.py\<close> builds do not convert that way.
  \<open>RSAPublicKeyParams\<close>, built here without a warning, has one conversion, registered
  for \<open>rsa.RSAPublicKey\<close>, which is a subtype of \<open>object\<close>: \<open>convert_to(object)\<close>
  raises \<open>NotImplementedError\<close> without invoking it, and so does \<open>convert_to(object)\<close>
  of an \<open>RSAPrivateKeyParams\<close>, where both levels of the chain have a conversion whose
  type is a subtype of \<open>object\<close>.  The conversion is invoked when the token is
  \<open>rsa.RSAPublicKey\<close> itself.
\<close>

theorem convert_to_supertype:
  "params_init RSAPublicKeyParams rsa_public_example
     = Inr (\<lparr>params_class = RSAPublicKeyParams, data = rsa_public_example\<rparr>, [])
   \<and> issubclass RSAPublicKey PyObject
   \<and> RSAPublicKeyParams_convert_to rsa_public_example (Class PyObject)
     = Inl NotImplementedError
   \<and> RSAPublicKeyParams_convert_to rsa_public_example (Class RSAPublicKey)
     = Inr (ExternalCall ''rsa.RSAPublicNumbers(e, n).public_key(backend)''
              [VInt 65537, VInt 65537])
   \<and> params_init RSAPrivateKeyParams rsa_private_example
     = Inr (\<lparr>params_class = RSAPrivateKeyParams, data = rsa_private_example\<rparr>, [])
   \<and> issubclass RSAPrivateKey PyObject
   \<and> RSAPrivateKeyParams_convert_to rsa_private_example (Class PyObject)
     = Inl NotImplementedError"
  by (simp add: params_init_def rsa_public_example_def rsa_private_example_def issubclass_def
      RSAPrivateKeyParams_convert_to_def RSAPublicKeyParams_convert_to_def
      PublicKeyParams_convert_to_def rsa_public_numbers_def)

end
